theory Spec2Isabelle
  imports
    Main
    "HOL-Library.Char_ord"
    "HOL-Library.List_Lexorder"
    "HOL-Library.Product_Lexorder"
    "HOL-Library.Multiset"
begin

section \<open>TinyImageNet dataset adapter (colorization/data/tiny\_image\_net.py)\<close>

text \<open>
  A shallow embedding of the class \<^verbatim>\<open>TinyImageNet\<close>. Python exceptions are values of
  \<open>error + 'a\<close>; the file system the class reads and mutates is an explicit state that
  every operation receives and, where it deletes files, returns. Paths and file names
  are \<open>string\<close>s: byte strings in UTF-8, whose lexicographic order is the order of
  Python's \<^verbatim>\<open>str\<close> by code point.
\<close>

subsection \<open>Exceptions\<close>

datatype error =
    ValueError string      \<comment> \<open>\<^verbatim>\<open>raise ValueError(msg)\<close>\<close>
  | AssertionError         \<comment> \<open>a failed \<^verbatim>\<open>assert\<close>\<close>
  | AttributeError         \<comment> \<open>\<^verbatim>\<open>None.start()\<close> in \<^verbatim>\<open>parse_num\<close>\<close>
  | NameError string       \<comment> \<open>a name bound neither locally nor globally\<close>
  | IndexError             \<comment> \<open>list or tuple index out of range\<close>
  | KeyError string        \<comment> \<open>a missing dictionary key\<close>
  | ImreadError string     \<comment> \<open>\<^verbatim>\<open>io.imread(path)\<close> raised: missing or undecodable file\<close>
  | RemoveError string     \<comment> \<open>\<^verbatim>\<open>os.remove(path)\<close> raised\<close>
  | AxisError              \<comment> \<open>\<^verbatim>\<open>np.moveaxis\<close> on an array without axes\<close>

subsection \<open>Arrays\<close>

text \<open>
  An array is known here by what the class inspects and what its collaborators change:
  the shape, the element type and the colour encoding. Pixel values are floating point
  data of the collaborators and are not part of the model.
\<close>

datatype dtype = Uint8 | Float16 | Float32 | Float64

datatype colorspace = RGB | LAB

record ndarray =
  shape :: "nat list"
  elem_type :: dtype
  encoding :: colorspace

subsection \<open>The file system\<close>

text \<open>
  \<open>fs_isdir\<close> is \<^verbatim>\<open>os.path.isdir\<close>; \<open>fs_glob\<close> is what \<^verbatim>\<open>glob(pattern)\<close> returns, in the
  order the operating system lists it; \<open>fs_imread\<close> is \<^verbatim>\<open>skimage.io.imread\<close>, \<open>None\<close> where
  it raises; \<open>fs_locked\<close> holds the paths \<^verbatim>\<open>os.remove\<close> cannot delete. A path that cannot
  be read counts as absent when it is to be removed; the class removes a file only
  after it has read it.
\<close>

record fs =
  fs_isdir :: "string \<Rightarrow> bool"
  fs_glob :: "string \<Rightarrow> string list"
  fs_imread :: "string \<Rightarrow> ndarray option"
  fs_locked :: "string \<Rightarrow> bool"

definition os_remove :: "fs \<Rightarrow> string \<Rightarrow> error + fs" where
  "os_remove s path =
     (if fs_imread s path = None \<or> fs_locked s path then Inl (RemoveError path)
      else Inr (s\<lparr>fs_glob := (\<lambda>pat. removeAll path (fs_glob s pat)),
                  fs_imread := (fs_imread s)(path := None)\<rparr>))"

text \<open>\<^verbatim>\<open>os.path.join(a, b)\<close> of \<^verbatim>\<open>posixpath\<close>, for two components.\<close>

definition path_join :: "string \<Rightarrow> string \<Rightarrow> string" where
  "path_join a b =
     (if b \<noteq> [] \<and> hd b = CHR ''/'' then b
      else if a = [] \<or> last a = CHR ''/'' then a @ b
      else a @ ''/'' @ b)"

subsection \<open>Class constants\<close>

definition DATASET_TRAIN :: string where "DATASET_TRAIN = ''train''"
definition DATASET_VAL :: string where "DATASET_VAL = ''val''"
definition DATASET_TEST :: string where "DATASET_TEST = ''test''"

definition IMAGE_SIZE_ACTUAL :: int where "IMAGE_SIZE_ACTUAL = 64"

definition CLEAN_ASSUME :: string where "CLEAN_ASSUME = ''assume''"
definition CLEAN_SKIP :: string where "CLEAN_SKIP = ''skip''"
definition CLEAN_PURGE :: string where "CLEAN_PURGE = ''purge''"

subsection \<open>\<^verbatim>\<open>_listdir\<close> and its numeric sort key\<close>


definition is_digit :: "char \<Rightarrow> bool" where
  "is_digit c = (c \<in> set ''0123456789'')"

definition newline :: char where
  "newline = CHR 0x0A"

text \<open>\<^verbatim>\<open>f.rsplit('.', 1)[0]\<close>: the text before the last dot, all of \<open>f\<close> when it has none.\<close>

definition rsplit_dot_head :: "string \<Rightarrow> string" where
  "rsplit_dot_head f =
     (if CHR ''.'' \<in> set f then rev (tl (dropWhile (\<lambda>c. c \<noteq> CHR ''.'') (rev f))) else f)"

text \<open>
  \<^verbatim>\<open>re.search(r'\d+$', base)\<close>, as the start of the match or \<open>None\<close>. In Python \<^verbatim>\<open>$\<close> matches
  at the end of the string and also just before a newline that ends it, so the digit run
  may be followed by one final newline. The leftmost match starts where the longest run of
  digits before that position starts, for a name of ASCII characters.
\<close>

definition search_trailing_digits :: "string \<Rightarrow> nat option" where
  "search_trailing_digits base =
     (let body = (if base \<noteq> [] \<and> last base = newline then butlast base else base);
          n = length (takeWhile is_digit (rev body))
      in if n = 0 then None else Some (length body - n))"

definition digit_val :: "char \<Rightarrow> int" where
  "digit_val c = int (of_char c) - 48"

text \<open>
  \<^verbatim>\<open>int(num)\<close> on what \<^verbatim>\<open>parse_num\<close> passes to it: decimal digits, followed by at most
  the one newline that \<^verbatim>\<open>int\<close> strips as white space.
\<close>

definition py_int :: "string \<Rightarrow> int" where
  "py_int num = foldl (\<lambda>acc c. 10 * acc + digit_val c) 0 (filter is_digit num)"

definition parse_num :: "string \<Rightarrow> error + (string \<times> int)" where
  "parse_num f =
     (let base = rsplit_dot_head f in
      case search_trailing_digits base of
        None \<Rightarrow> Inl AttributeError
      | Some i \<Rightarrow> Inr (take i base, py_int (drop i base)))"

text \<open>
  The keys of \<^verbatim>\<open>files.sort(key=parse_num)\<close>, computed for every element in list order
  before anything is compared; the first exception ends the sort.
\<close>

fun sort_keys :: "string list \<Rightarrow> error + (string \<times> int) list" where
  "sort_keys [] = Inr []"
| "sort_keys (f # fs) =
     (case parse_num f of
        Inl e \<Rightarrow> Inl e
      | Inr k \<Rightarrow> (case sort_keys fs of Inl e \<Rightarrow> Inl e | Inr ks \<Rightarrow> Inr (k # ks)))"

text \<open>
  \<^verbatim>\<open>list.sort\<close> is stable; \<open>sort_key\<close> is the stable insertion sort. Tuples compare
  lexicographically: the prefixes as strings, then the numbers.
\<close>

definition listdir :: "fs \<Rightarrow> string \<Rightarrow> bool \<Rightarrow> error + string list" where
  "listdir s path sort_num =
     (let files = fs_glob s (path_join path ''*'') in
      if sort_num then
        (case sort_keys files of
           Inl e \<Rightarrow> Inl e
         | Inr keys \<Rightarrow> Inr (map snd (sort_key fst (zip keys files))))
      else Inr (sort files))"

subsection \<open>The dataset handle\<close>

text \<open>
  The attributes \<^verbatim>\<open>__init__\<close> assigns. \<open>indices\<close> is the dictionary \<^verbatim>\<open>_indices\<close>, an
  association list in insertion order. The constructor's \<^verbatim>\<open>transform\<close> and \<^verbatim>\<open>clean\<close>
  arguments are not stored.
\<close>

record handle =
  root :: string
  dataset :: string
  image_size :: int
  image_dtype :: dtype
  limit :: "int option"
  indices :: "(string \<times> string list) list"

subsection \<open>Validated assignment\<close>

definition quote :: char where
  "quote = CHR 0x27"

definition set_root :: "fs \<Rightarrow> string \<Rightarrow> error + string" where
  "set_root s r =
     (if \<not> fs_isdir s r then Inl (ValueError (''not a directory: '' @ [quote] @ r @ [quote]))
      else Inr r)"

definition set_dataset :: "string \<Rightarrow> error + string" where
  "set_dataset d =
     (let valid = [DATASET_TRAIN, DATASET_VAL, DATASET_TEST] in
      if d \<notin> set valid then Inl (ValueError ''dataset must be either of train, val, test'')
      else Inr d)"

definition set_image_size :: "int \<Rightarrow> error + int" where
  "set_image_size n = (if n \<ge> IMAGE_SIZE_ACTUAL then Inr n else Inl AssertionError)"

subsection \<open>Building the indices\<close>

text \<open>The loop over the class directories of the training split, appending to the index.\<close>

fun build_train :: "fs \<Rightarrow> string list \<Rightarrow> string list \<Rightarrow> error + string list" where
  "build_train s [] index = Inr index"
| "build_train s (images # rest) index =
     (let images_root = path_join images ''images'' in
      case listdir s images_root True of
        Inl e \<Rightarrow> Inl e
      | Inr image_paths \<Rightarrow> build_train s rest (index @ image_paths))"

definition build_index :: "fs \<Rightarrow> string \<Rightarrow> string \<Rightarrow> error + string list" where
  "build_index s r d =
     (let dataset_path = path_join r d in
      if d = DATASET_TRAIN then
        (case listdir s dataset_path False of
           Inl e \<Rightarrow> Inl e
         | Inr class_dirs \<Rightarrow> build_train s class_dirs [])
      else
        (let images_root = path_join dataset_path ''images'' in
         listdir s images_root True))"

fun build_each :: "fs \<Rightarrow> string \<Rightarrow> string list \<Rightarrow> error + (string \<times> string list) list" where
  "build_each s r [] = Inr []"
| "build_each s r (d # ds) =
     (case build_index s r d of
        Inl e \<Rightarrow> Inl e
      | Inr index \<Rightarrow>
          (case build_each s r ds of Inl e \<Rightarrow> Inl e | Inr rest \<Rightarrow> Inr ((d, index) # rest)))"

definition build_indices :: "fs \<Rightarrow> string \<Rightarrow> error + (string \<times> string list) list" where
  "build_indices s r = build_each s r [DATASET_TRAIN, DATASET_VAL, DATASET_TEST]"

subsection \<open>Shape predicates\<close>

definition is_rgb :: "ndarray \<Rightarrow> bool" where
  "is_rgb img = (length (shape img) = 3 \<and> shape img ! 2 = 3)"

text \<open>Indexing a shape tuple: \<^verbatim>\<open>image.shape[k]\<close> for \<open>k \<ge> 0\<close>.\<close>

definition shape_at :: "ndarray \<Rightarrow> nat \<Rightarrow> error + nat" where
  "shape_at img k = (if k < length (shape img) then Inr (shape img ! k) else Inl IndexError)"

text \<open>
  \<^verbatim>\<open>image.shape[0] == image.shape[1] == cls.IMAGE_SIZE_ACTUAL\<close>: both subscripts are
  evaluated before the first comparison.
\<close>

definition has_right_size :: "ndarray \<Rightarrow> error + bool" where
  "has_right_size img =
     (case shape_at img 0 of
        Inl e \<Rightarrow> Inl e
      | Inr h \<Rightarrow>
          (case shape_at img 1 of
             Inl e \<Rightarrow> Inl e
           | Inr w \<Rightarrow> Inr (h = w \<and> int w = IMAGE_SIZE_ACTUAL)))"

subsection \<open>The cleaning pass\<close>

text \<open>
  The inner loop of \<^verbatim>\<open>_filter_non_rgb\<close> over one index. The file system is threaded
  through, since purging deletes files while the loop runs; it is returned on an
  exception too, with the deletions made so far.
\<close>

fun filter_index :: "bool \<Rightarrow> fs \<Rightarrow> string list \<Rightarrow> string list \<Rightarrow> (error + string list) \<times> fs" where
  "filter_index purge s [] index_rgb_only = (Inr index_rgb_only, s)"
| "filter_index purge s (path # rest) index_rgb_only =
     (case fs_imread s path of
        None \<Rightarrow> (Inl (ImreadError path), s)
      | Some img \<Rightarrow>
          if is_rgb img then filter_index purge s rest (index_rgb_only @ [path])
          else if purge then
            (case os_remove s path of
               Inl e \<Rightarrow> (Inl e, s)
             | Inr s' \<Rightarrow> filter_index purge s' rest index_rgb_only)
          else filter_index purge s rest index_rgb_only)"

text \<open>The outer loop over \<^verbatim>\<open>self._indices.items()\<close>, replacing each value in place.\<close>

fun filter_each ::
  "bool \<Rightarrow> fs \<Rightarrow> (string \<times> string list) list \<Rightarrow> (error + (string \<times> string list) list) \<times> fs" where
  "filter_each purge s [] = (Inr [], s)"
| "filter_each purge s ((d, index) # rest) =
     (case filter_index purge s index [] of
        (Inl e, s') \<Rightarrow> (Inl e, s')
      | (Inr index_rgb_only, s') \<Rightarrow>
          (case filter_each purge s' rest of
             (Inl e, s'') \<Rightarrow> (Inl e, s'')
           | (Inr rest', s'') \<Rightarrow> (Inr ((d, index_rgb_only) # rest'), s'')))"

definition filter_non_rgb ::
  "bool \<Rightarrow> fs \<Rightarrow> (string \<times> string list) list \<Rightarrow> (error + (string \<times> string list) list) \<times> fs" where
  "filter_non_rgb purge s idx = filter_each purge s idx"

definition clean ::
  "string \<Rightarrow> fs \<Rightarrow> (string \<times> string list) list \<Rightarrow> (error + (string \<times> string list) list) \<times> fs" where
  "clean mode s idx =
     (if mode = CLEAN_SKIP then filter_non_rgb False s idx
      else if mode = CLEAN_PURGE then filter_non_rgb True s idx
      else if mode \<noteq> CLEAN_ASSUME then (Inl (ValueError ''invalid cleaning procedure''), s)
      else (Inr idx, s))"

subsection \<open>Construction\<close>

text \<open>
  \<^verbatim>\<open>__init__(root, dataset, image_size, image_dtype, limit, clean, transform)\<close>. The result
  is the handle or the exception, together with the file system as construction leaves it.
\<close>

definition init ::
  "fs \<Rightarrow> string \<Rightarrow> string \<Rightarrow> int \<Rightarrow> dtype \<Rightarrow> int option \<Rightarrow> string \<Rightarrow> 't \<Rightarrow> (error + handle) \<times> fs" where
  "init s r d sz dt lim mode transform =
     (case set_root s r of
        Inl e \<Rightarrow> (Inl e, s)
      | Inr r' \<Rightarrow>
     (case set_dataset d of
        Inl e \<Rightarrow> (Inl e, s)
      | Inr d' \<Rightarrow>
     (case set_image_size sz of
        Inl e \<Rightarrow> (Inl e, s)
      | Inr sz' \<Rightarrow>
     (case build_indices s r' of
        Inl e \<Rightarrow> (Inl e, s)
      | Inr idx \<Rightarrow>
     (case clean mode s idx of
        (Inl e, s') \<Rightarrow> (Inl e, s')
      | (Inr idx', s') \<Rightarrow>
          (Inr \<lparr>root = r', dataset = d', image_size = sz', image_dtype = dt,
                limit = lim, indices = idx'\<rparr>, s'))))))"

subsection \<open>Collaborators of the item accessor\<close>

text \<open>
  Modelled from the spec: \<^verbatim>\<open>resize\<close> of \<^verbatim>\<open>colorization/util/image.py\<close>, which is not
  among the sources. The spec gives it as
  \<^verbatim>\<open>(array[H,W,C], targetSize) -> array[targetSize,targetSize,C]\<close>.
\<close>

definition resize :: "ndarray \<Rightarrow> int \<Rightarrow> ndarray" where
  "resize img n = img\<lparr>shape := [nat n, nat n] @ drop 2 (shape img)\<rparr>"

text \<open>
  Modelled from the spec: \<^verbatim>\<open>rgb_to_lab\<close> of \<^verbatim>\<open>colorization/util/image.py\<close>, which is not
  among the sources. The spec gives it as \<^verbatim>\<open>array[H,W,3] (RGB) -> array[H,W,3] (Lab)\<close>.
\<close>

definition rgb_to_lab :: "ndarray \<Rightarrow> ndarray" where
  "rgb_to_lab img = img\<lparr>encoding := LAB\<rparr>"

text \<open>\<^verbatim>\<open>ndarray.astype(dtype)\<close> and \<^verbatim>\<open>np.moveaxis(a, -1, 0)\<close> of numpy.\<close>

definition astype :: "ndarray \<Rightarrow> dtype \<Rightarrow> ndarray" where
  "astype img dt = img\<lparr>elem_type := dt\<rparr>"

definition moveaxis_last_first :: "ndarray \<Rightarrow> error + ndarray" where
  "moveaxis_last_first img =
     (if shape img = [] then Inl AxisError
      else Inr (img\<lparr>shape := last (shape img) # butlast (shape img)\<rparr>))"

subsection \<open>The item accessor\<close>

text \<open>
  Reading a variable inside a method body: the name is looked up among the local
  variables bound so far. The names the module binds globally are \<^verbatim>\<open>os\<close>, \<^verbatim>\<open>pickle\<close>,
  \<^verbatim>\<open>re\<close>, \<^verbatim>\<open>glob\<close>, \<^verbatim>\<open>np\<close>, \<^verbatim>\<open>io\<close>, \<^verbatim>\<open>Dataset\<close>, \<^verbatim>\<open>resize\<close>, \<^verbatim>\<open>rgb_to_lab\<close> and
  \<^verbatim>\<open>TinyImageNet\<close>; no array is among them, and a name found nowhere raises
  \<^verbatim>\<open>NameError\<close>.
\<close>

definition load_name :: "(string \<times> ndarray) list \<Rightarrow> string \<Rightarrow> error + ndarray" where
  "load_name locals name =
     (case map_of locals name of Some v \<Rightarrow> Inr v | None \<Rightarrow> Inl (NameError name))"

text \<open>
  \<^verbatim>\<open>_process_image(self, image_rgb)\<close>, statement by statement:
  \<^verbatim>\<open>image_lab = rgb_to_lab(image)\<close>, \<^verbatim>\<open>image_lab = imagelab.astype(self.image_dtype)\<close>,
  \<^verbatim>\<open>return np.moveaxis(image_lab, -1, 0)\<close>.
\<close>

definition process_image :: "handle \<Rightarrow> ndarray \<Rightarrow> error + ndarray" where
  "process_image self image_rgb =
     (let locals = [(''image_rgb'', image_rgb)] in
      case load_name locals ''image'' of
        Inl e \<Rightarrow> Inl e
      | Inr arg \<Rightarrow>
          (let locals = (''image_lab'', rgb_to_lab arg) # locals in
           case load_name locals ''imagelab'' of
             Inl e \<Rightarrow> Inl e
           | Inr receiver \<Rightarrow>
               (let locals = (''image_lab'', astype receiver (image_dtype self)) # locals in
                case load_name locals ''image_lab'' of
                  Inl e \<Rightarrow> Inl e
                | Inr image_lab \<Rightarrow> moveaxis_last_first image_lab)))"

text \<open>Subscripting a Python list with an integer: negative positions count from the end.\<close>

definition list_get :: "'a list \<Rightarrow> int \<Rightarrow> error + 'a" where
  "list_get xs i =
     (let n = int (length xs); j = (if i < 0 then i + n else i)
      in if 0 \<le> j \<and> j < n then Inr (xs ! nat j) else Inl IndexError)"

text \<open>\<^verbatim>\<open>self._indices[self.dataset]\<close>.\<close>

definition active_index :: "handle \<Rightarrow> error + string list" where
  "active_index self =
     (case map_of (indices self) (dataset self) of
        None \<Rightarrow> Inl (KeyError (dataset self))
      | Some index \<Rightarrow> Inr index)"

text \<open>
  The condition of the \<^verbatim>\<open>assert\<close>, which is taken to be enabled; \<^verbatim>\<open>and\<close> evaluates its
  right operand only when the left holds.
\<close>

definition assert_cond :: "ndarray \<Rightarrow> error + bool" where
  "assert_cond image_rgb = (if is_rgb image_rgb then has_right_size image_rgb else Inr False)"

text \<open>The step under the comment \<^verbatim>\<open># scale image to desired size\<close>.\<close>

definition scale :: "handle \<Rightarrow> ndarray \<Rightarrow> ndarray" where
  "scale self image_rgb =
     (if image_size self \<noteq> IMAGE_SIZE_ACTUAL then resize image_rgb IMAGE_SIZE_ACTUAL
      else image_rgb)"

text \<open>\<^verbatim>\<open>_getitem(self, index)\<close>.\<close>

definition getitem :: "handle \<Rightarrow> fs \<Rightarrow> int \<Rightarrow> error + (ndarray \<times> string)" where
  "getitem self s i =
     (case active_index self of
        Inl e \<Rightarrow> Inl e
      | Inr index \<Rightarrow>
     (case list_get index i of
        Inl e \<Rightarrow> Inl e
      | Inr image_path \<Rightarrow>
     (case fs_imread s image_path of
        None \<Rightarrow> Inl (ImreadError image_path)
      | Some image_rgb \<Rightarrow>
     (case assert_cond image_rgb of
        Inl e \<Rightarrow> Inl e
      | Inr ok \<Rightarrow>
          if \<not> ok then Inl AssertionError
          else
            (case process_image self (scale self image_rgb) of
               Inl e \<Rightarrow> Inl e
             | Inr image_lab \<Rightarrow> Inr (image_lab, image_path))))))"

subsection \<open>Slices\<close>

datatype subscript = Index int | Slice "int option" "int option" "int option"

text \<open>\<^verbatim>\<open>slice(start, stop, step).indices(length)\<close> of CPython, for \<open>length \<ge> 0\<close>.\<close>

definition slice_indices ::
  "int option \<Rightarrow> int option \<Rightarrow> int option \<Rightarrow> int \<Rightarrow> error + (int \<times> int \<times> int)" where
  "slice_indices start stop step len =
     (let k = (case step of None \<Rightarrow> 1 | Some v \<Rightarrow> v) in
      if k = 0 then Inl (ValueError ''slice step cannot be zero'')
      else
        (let lower = (if k < 0 then - 1 else 0);
             upper = (if k < 0 then len - 1 else len);
             a = (case start of
                    None \<Rightarrow> (if k < 0 then upper else lower)
                  | Some v \<Rightarrow> (if v < 0 then max (v + len) lower else min v upper));
             b = (case stop of
                    None \<Rightarrow> (if k < 0 then lower else upper)
                  | Some v \<Rightarrow> (if v < 0 then max (v + len) lower else min v upper))
         in Inr (a, b, k)))"

text \<open>The elements of \<^verbatim>\<open>range(start, stop, step)\<close> for \<open>step \<noteq> 0\<close>.\<close>

definition py_range :: "int \<Rightarrow> int \<Rightarrow> int \<Rightarrow> int list" where
  "py_range start stop step =
     (let n = (if step > 0 \<and> start < stop then (stop - start - 1) div step + 1
               else if step < 0 \<and> stop < start then (start - stop - 1) div (- step) + 1
               else 0)
      in map (\<lambda>j. start + int j * step) [0..<nat n])"

text \<open>The positions a slice visits: \<^verbatim>\<open>range(*index.indices(len(self._indices[self.dataset])))\<close>.\<close>

definition slice_positions :: "handle \<Rightarrow> int option \<Rightarrow> int option \<Rightarrow> int option \<Rightarrow> error + int list" where
  "slice_positions self start stop step =
     (case active_index self of
        Inl e \<Rightarrow> Inl e
      | Inr index \<Rightarrow>
          (case slice_indices start stop step (int (length index)) of
             Inl e \<Rightarrow> Inl e
           | Inr (a, b, k) \<Rightarrow> Inr (py_range a b k)))"

text \<open>The comprehension \<^verbatim>\<open>[self._getitem(i) for i in r]\<close>.\<close>

fun getitem_each :: "handle \<Rightarrow> fs \<Rightarrow> int list \<Rightarrow> error + (ndarray \<times> string) list" where
  "getitem_each self s [] = Inr []"
| "getitem_each self s (i # r) =
     (case getitem self s i of
        Inl e \<Rightarrow> Inl e
      | Inr item \<Rightarrow>
          (case getitem_each self s r of Inl e \<Rightarrow> Inl e | Inr items \<Rightarrow> Inr (item # items)))"

datatype fetched = Item "ndarray \<times> string" | Items "(ndarray \<times> string) list"

text \<open>\<^verbatim>\<open>__getitem__(self, index)\<close>.\<close>

definition dunder_getitem :: "handle \<Rightarrow> fs \<Rightarrow> subscript \<Rightarrow> error + fetched" where
  "dunder_getitem self s sub =
     (case sub of
        Slice start stop step \<Rightarrow>
          (case slice_positions self start stop step of
             Inl e \<Rightarrow> Inl e
           | Inr r \<Rightarrow> (case getitem_each self s r of Inl e \<Rightarrow> Inl e | Inr items \<Rightarrow> Inr (Items items)))
      | Index i \<Rightarrow> (case getitem self s i of Inl e \<Rightarrow> Inl e | Inr item \<Rightarrow> Inr (Item item)))"

text \<open>\<^verbatim>\<open>__len__(self)\<close>.\<close>

definition dunder_len :: "handle \<Rightarrow> error + int" where
  "dunder_len self =
     (case active_index self of
        Inl e \<Rightarrow> Inl e
      | Inr index \<Rightarrow>
          (let l = int (length index) in
           case limit self of None \<Rightarrow> Inr l | Some k \<Rightarrow> Inr (min k l)))"

subsection \<open>What a caller observes\<close>

text \<open>
  Construction followed by a length query and one retrieval, against the file system
  as construction left it.
\<close>

definition session ::
  "fs \<Rightarrow> string \<Rightarrow> string \<Rightarrow> int \<Rightarrow> dtype \<Rightarrow> int option \<Rightarrow> string \<Rightarrow> 't \<Rightarrow> subscript
     \<Rightarrow> error + (error + int) \<times> (error + fetched)" where
  "session s r d sz dt lim mode transform sub =
     (case init s r d sz dt lim mode transform of
        (Inl e, s') \<Rightarrow> Inl e
      | (Inr self, s') \<Rightarrow> Inr (dunder_len self, dunder_getitem self s' sub))"

text \<open>The paths of all splits, in the order the cleaning pass visits them.\<close>

definition all_paths :: "(string \<times> string list) list \<Rightarrow> string list" where
  "all_paths idx = concat (map snd idx)"

text \<open>What \<^verbatim>\<open>is_rgb(io.imread(path))\<close> gives on a file system, \<open>False\<close> where the read fails.\<close>

definition reads_rgb :: "fs \<Rightarrow> string \<Rightarrow> bool" where
  "reads_rgb s path = (case fs_imread s path of None \<Rightarrow> False | Some img \<Rightarrow> is_rgb img)"

subsection \<open>A small dataset on disk\<close>

definition rgb64 :: ndarray where
  "rgb64 = \<lparr>shape = [64, 64, 3], elem_type = Uint8, encoding = RGB\<rparr>"

definition gray64 :: ndarray where
  "gray64 = \<lparr>shape = [64, 64], elem_type = Uint8, encoding = RGB\<rparr>"

definition ex_files :: "string list" where
  "ex_files =
     [''d/train/a/images/a_2.png'', ''d/train/a/images/a_10.png'', ''d/train/a/images/a_1.png'',
      ''d/train/b/images/b_0.png'',
      ''d/val/images/v_3.png'', ''d/val/images/v_0.png'', ''d/val/images/v_4.png'',
      ''d/val/images/v_1.png'', ''d/val/images/v_2.png'',
      ''d/test/images/t_0.png'']"

text \<open>
  Two training classes, five validation files and one test file, listed out of order; one
  training file and one validation file are grey-scale.
\<close>

definition ex_fs :: fs where
  "ex_fs =
     \<lparr>fs_isdir = (\<lambda>p. p = ''d''),
      fs_glob = (\<lambda>pat.
        if pat = ''d/train/*'' then [''d/train/b'', ''d/train/a'']
        else if pat = ''d/train/a/images/*'' then take 3 ex_files
        else if pat = ''d/train/b/images/*'' then take 1 (drop 3 ex_files)
        else if pat = ''d/val/images/*'' then take 5 (drop 4 ex_files)
        else if pat = ''d/test/images/*'' then drop 9 ex_files
        else []),
      fs_imread = (\<lambda>p.
        if p = ''d/train/a/images/a_2.png'' \<or> p = ''d/val/images/v_4.png'' then Some gray64
        else if p \<in> set ex_files then Some rgb64
        else None),
      fs_locked = (\<lambda>p. False)\<rparr>"

definition ex_indices :: "(string \<times> string list) list" where
  "ex_indices =
     [(''train'', [''d/train/a/images/a_1.png'', ''d/train/a/images/a_2.png'',
                   ''d/train/a/images/a_10.png'', ''d/train/b/images/b_0.png'']),
      (''val'', [''d/val/images/v_0.png'', ''d/val/images/v_1.png'', ''d/val/images/v_2.png'',
                 ''d/val/images/v_3.png'', ''d/val/images/v_4.png'']),
      (''test'', [''d/test/images/t_0.png''])]"

definition ex_handle :: "string \<Rightarrow> int \<Rightarrow> int option \<Rightarrow> handle" where
  "ex_handle d sz lim =
     \<lparr>root = ''d'', dataset = d, image_size = sz, image_dtype = Float32, limit = lim,
      indices = ex_indices\<rparr>"


subsection \<open>A file system with some files gone\<close>

definition without_files :: "fs \<Rightarrow> string list \<Rightarrow> fs" where
  "without_files s gone =
     s\<lparr>fs_glob := (\<lambda>pat. filter (\<lambda>p. p \<notin> set gone) (fs_glob s pat)),
       fs_imread := (\<lambda>p. if p \<in> set gone then None else fs_imread s p)\<rparr>"

subsection \<open>The configuration errors of construction\<close>

text \<open>
  The four exceptions that \<^verbatim>\<open>__init__\<close> raises for a bad argument: the two
  \<^verbatim>\<open>ValueError\<close>s and the failed assertion of the property setters, and the
  \<^verbatim>\<open>ValueError\<close> of \<^verbatim>\<open>_clean\<close>.
\<close>

definition config_errors :: "string \<Rightarrow> error list" where
  "config_errors r =
     [ValueError (''not a directory: '' @ [quote] @ r @ [quote]),
      ValueError ''dataset must be either of train, val, test'',
      AssertionError,
      ValueError ''invalid cleaning procedure'']"

subsection \<open>The order of the numeric sort, in the words of its description\<close>



section \<open>Properties\<close>

lemmas build_defs =
  init_def set_root_def set_dataset_def set_image_size_def build_indices_def build_index_def
  listdir_def path_join_def parse_num_def rsplit_dot_head_def search_trailing_digits_def
  is_digit_def newline_def py_int_def digit_val_def clean_def filter_non_rgb_def
  DATASET_TRAIN_def DATASET_VAL_def DATASET_TEST_def IMAGE_SIZE_ACTUAL_def
  CLEAN_SKIP_def CLEAN_PURGE_def CLEAN_ASSUME_def is_rgb_def

lemmas ex_defs = ex_fs_def ex_files_def ex_handle_def ex_indices_def rgb64_def gray64_def

lemmas access_defs =
  getitem_def active_index_def list_get_def assert_cond_def has_right_size_def shape_at_def
  scale_def process_image_def load_name_def dunder_getitem_def dunder_len_def
  slice_positions_def slice_indices_def py_range_def

subsection \<open>The example dataset\<close>

lemma ex_init_assume:
  "init ex_fs ''d'' d 64 Float32 lim ''assume'' t =
     (if d \<in> set [''train'', ''val'', ''test''] then (Inr (ex_handle d 64 lim), ex_fs)
      else (Inl (ValueError ''dataset must be either of train, val, test''), ex_fs))"
  by (simp add: build_defs ex_defs)

subsection \<open>Single-item retrieval\<close>

lemma process_image_raises: "process_image self image_rgb = Inl (NameError ''image'')"
  by (simp add: process_image_def load_name_def)

lemma getitem_raises: "\<exists>e. getitem self s i = Inl e"
  by (simp add: getitem_def process_image_raises split: sum.split option.split)

text \<open>
  C1. Retrieval of a valid item should return the converted array with its path. On the
  example dataset, built with the default cleaning mode, position 0 of the validation
  split is a 64 x 64 RGB file; \<^verbatim>\<open>_getitem\<close> passes both checks and then raises
  \<^verbatim>\<open>NameError\<close>, since \<^verbatim>\<open>_process_image\<close> reads the unbound name \<^verbatim>\<open>image\<close>. No call of
  \<^verbatim>\<open>_getitem\<close> returns, on any handle, file system and position.
\<close>

theorem getitem_valid_item_raises:
  "init ex_fs ''d'' ''val'' 64 Float32 None ''assume'' () = (Inr (ex_handle ''val'' 64 None), ex_fs)
   \<and> active_index (ex_handle ''val'' 64 None) =
       Inr [''d/val/images/v_0.png'', ''d/val/images/v_1.png'', ''d/val/images/v_2.png'',
            ''d/val/images/v_3.png'', ''d/val/images/v_4.png'']
   \<and> fs_imread ex_fs ''d/val/images/v_0.png'' = Some rgb64
   \<and> assert_cond rgb64 = Inr True
   \<and> getitem (ex_handle ''val'' 64 None) ex_fs 0 = Inl (NameError ''image'')
   \<and> dunder_getitem (ex_handle ''val'' 64 None) ex_fs (Index 0) = Inl (NameError ''image'')
   \<and> (\<forall>self s i. \<exists>e. getitem self s i = Inl e)"
  by (simp add: ex_init_assume getitem_raises) (simp add: access_defs ex_defs build_defs)

text \<open>
  C2. With a target size other than 64 the decoded array should be resized to the target
  size. On a handle with \<open>image_size = 128\<close> and a valid 64 x 64 RGB file, the step under
  the comment "scale image to desired size" calls \<^verbatim>\<open>resize\<close> with
  \<^verbatim>\<open>IMAGE_SIZE_ACTUAL\<close>, so the array keeps the shape 64 x 64 x 3 where resizing to the
  target gives 128 x 128 x 3; converted as the three statements of \<^verbatim>\<open>_process_image\<close>
  intend, it would come out as 3 x 64 x 64. The call itself ends in the \<^verbatim>\<open>NameError\<close> of C1.
\<close>

theorem scale_keeps_native_size:
  "image_size (ex_handle ''val'' 128 None) = 128
   \<and> fs_imread ex_fs ''d/val/images/v_0.png'' = Some rgb64
   \<and> assert_cond rgb64 = Inr True
   \<and> resize rgb64 128 = rgb64\<lparr>shape := [128, 128, 3]\<rparr>
   \<and> scale (ex_handle ''val'' 128 None) rgb64 = rgb64
   \<and> shape (scale (ex_handle ''val'' 128 None) rgb64) = [64, 64, 3]
   \<and> moveaxis_last_first (astype (rgb_to_lab (scale (ex_handle ''val'' 128 None) rgb64)) Float32) =
       Inr \<lparr>shape = [3, 64, 64], elem_type = Float32, encoding = LAB\<rparr>
   \<and> getitem (ex_handle ''val'' 128 None) ex_fs 0 = Inl (NameError ''image'')"
  by (simp add: access_defs ex_defs build_defs resize_def astype_def rgb_to_lab_def
        moveaxis_last_first_def)

subsection \<open>The handle that construction returns\<close>

lemma build_each_keys: "build_each s r ds = Inr idx \<Longrightarrow> map fst idx = ds"
  by (induction ds arbitrary: idx) (auto split: sum.splits)

lemma build_indices_keys:
  "build_indices s r = Inr idx \<Longrightarrow> map fst idx = [DATASET_TRAIN, DATASET_VAL, DATASET_TEST]"
  by (simp add: build_indices_def build_each_keys)

lemma filter_each_keys: "filter_each purge s idx = (Inr idx', s') \<Longrightarrow> map fst idx' = map fst idx"
  by (induction idx arbitrary: s idx' s') (auto split: sum.splits prod.splits)

lemma clean_keys: "clean mode s idx = (Inr idx', s') \<Longrightarrow> map fst idx' = map fst idx"
  by (auto simp: clean_def filter_non_rgb_def split: if_splits dest: filter_each_keys)

lemma init_handle:
  assumes "init s r d sz dt lim mode t = (Inr self, s')"
  shows "root self = r \<and> dataset self = d \<and> image_size self = sz \<and> image_dtype self = dt
         \<and> limit self = lim
         \<and> map fst (indices self) = [DATASET_TRAIN, DATASET_VAL, DATASET_TEST]
         \<and> d \<in> set [DATASET_TRAIN, DATASET_VAL, DATASET_TEST]"
  using assms
  by (auto simp: init_def set_root_def set_dataset_def set_image_size_def
           split: sum.splits prod.splits if_splits dest!: build_indices_keys clean_keys)

lemma init_active_index:
  assumes "init s r d sz dt lim mode t = (Inr self, s')"
  shows "\<exists>index. active_index self = Inr index"
proof -
  from init_handle [OF assms]
  have d: "dataset self \<in> set (map fst (indices self))" by auto
  then have "map_of (indices self) (dataset self) \<noteq> None"
    by (simp add: map_of_eq_None_iff)
  then show ?thesis by (auto simp: active_index_def)
qed

subsection \<open>Length\<close>

text \<open>
  C4. On every handle that construction returns, the active split has an index and
  \<^verbatim>\<open>__len__\<close> returns the smaller of the limit and the length of that index when a limit
  was given, and the length of the index when none was.
\<close>

theorem len_is_bounded_length:
  assumes "init s r d sz dt lim mode t = (Inr self, s')"
  shows "\<exists>index. active_index self = Inr index
           \<and> dunder_len self =
               Inr (case lim of None \<Rightarrow> int (length index) | Some k \<Rightarrow> min k (int (length index)))"
proof -
  from init_active_index [OF assms] obtain index where a: "active_index self = Inr index" by blast
  from init_handle [OF assms] have "limit self = lim" by simp
  with a show ?thesis by (auto simp: dunder_len_def split: option.split)
qed

theorem len_is_bounded_length_witness:
  "init ex_fs ''d'' ''val'' 64 Float32 (Some 4) ''assume'' () =
     (Inr (ex_handle ''val'' 64 (Some 4)), ex_fs)
   \<and> dunder_len (ex_handle ''val'' 64 (Some 4)) = Inr 4
   \<and> init ex_fs ''d'' ''val'' 64 Float32 None ''assume'' () = (Inr (ex_handle ''val'' 64 None), ex_fs)
   \<and> dunder_len (ex_handle ''val'' 64 None) = Inr 5"
proof -
  have a: "init ex_fs ''d'' ''val'' 64 Float32 (Some 4) ''assume'' () =
             (Inr (ex_handle ''val'' 64 (Some 4)), ex_fs)"
    by (simp add: ex_init_assume)
  have b: "init ex_fs ''d'' ''val'' 64 Float32 None ''assume'' () =
             (Inr (ex_handle ''val'' 64 None), ex_fs)"
    by (simp add: ex_init_assume)
  have i: "active_index (ex_handle ''val'' 64 lim) = Inr (snd (ex_indices ! 1))" for lim
    by (simp add: active_index_def ex_defs)
  from len_is_bounded_length [OF a] len_is_bounded_length [OF b] a b show ?thesis
    by (simp add: i) (simp add: ex_defs)
qed

subsection \<open>The transform argument\<close>

text \<open>
  C10. The constructor's \<^verbatim>\<open>transform\<close> argument has no effect: two constructions that
  differ only in it return the same handle or exception and leave the same file system,
  and a length query and a retrieval after them give the same results.
\<close>

theorem transform_is_ignored:
  "init s r d sz dt lim mode (t1 :: 'a) = init s r d sz dt lim mode (t2 :: 'b)
   \<and> session s r d sz dt lim mode t1 sub = session s r d sz dt lim mode t2 sub"
  by (simp add: init_def session_def)

subsection \<open>The shape assertion\<close>

lemma assert_cond_native:
  "assert_cond img =
     Inr (length (shape img) = 3 \<and> shape img ! 2 = 3 \<and> shape img ! 0 = 64 \<and> shape img ! 1 = 64)"
  by (auto simp: assert_cond_def is_rgb_def has_right_size_def shape_at_def IMAGE_SIZE_ACTUAL_def)

text \<open>
  C5. When the decoded image is not a three-dimensional array with 3 entries along its
  last axis and 64 along each of the first two, retrieval ends in the failed assertion:
  it returns nothing. The handle is arbitrary, so the target size plays no part and the
  comparison is with 64; the cleaning mode is not part of a handle.
\<close>

theorem bad_shape_is_assertion_failure:
  assumes "active_index self = Inr index"
    and "list_get index i = Inr path"
    and "fs_imread s path = Some img"
    and "\<not> (length (shape img) = 3 \<and> shape img ! 2 = 3 \<and> shape img ! 0 = 64 \<and> shape img ! 1 = 64)"
  shows "getitem self s i = Inl AssertionError
         \<and> dunder_getitem self s (Index i) = Inl AssertionError"
  using assms by (simp add: getitem_def dunder_getitem_def assert_cond_native)

theorem bad_shape_is_assertion_failure_witness:
  "active_index (ex_handle ''train'' 128 None) = Inr (snd (ex_indices ! 0))
   \<and> list_get (snd (ex_indices ! 0)) 1 = Inr ''d/train/a/images/a_2.png''
   \<and> fs_imread ex_fs ''d/train/a/images/a_2.png'' = Some gray64
   \<and> shape gray64 = [64, 64]
   \<and> getitem (ex_handle ''train'' 128 None) ex_fs 1 = Inl AssertionError
   \<and> dunder_getitem (ex_handle ''train'' 128 None) ex_fs (Index 1) = Inl AssertionError"
proof -
  have a: "active_index (ex_handle ''train'' 128 None) = Inr (snd (ex_indices ! 0))"
    by (simp add: active_index_def ex_defs)
  have b: "list_get (snd (ex_indices ! 0)) 1 = Inr ''d/train/a/images/a_2.png''"
    by (simp add: list_get_def ex_defs)
  have c: "fs_imread ex_fs ''d/train/a/images/a_2.png'' = Some gray64"
    by (simp add: ex_fs_def)
  have d: "\<not> (length (shape gray64) = 3 \<and> shape gray64 ! 2 = 3 \<and> shape gray64 ! 0 = 64
              \<and> shape gray64 ! 1 = 64)"
    by (simp add: gray64_def)
  from bad_shape_is_assertion_failure [OF a b c d] a b c show ?thesis
    by (simp add: gray64_def)
qed

subsection \<open>Slices and the limit\<close>

text \<open>
  C3. A slice should be resolved against the bounded length, so that no slice reaches a
  position at or beyond the limit and, with a limit of 4, the slice 2:5 yields at most
  two items. On the validation split of the example, five entries long and limited to
  4, \<^verbatim>\<open>__len__\<close> returns 4; resolved against that length the slice 4:5 is empty and
  the slice 2:5 covers the positions 2 and 3. \<^verbatim>\<open>__getitem__\<close> resolves both against the
  length 5 of the index: the slice 4:5 reads the file at position 4, which is
  grey-scale, and fails its assertion where the empty list was due, and the slice 2:5
  covers the three positions 2, 3 and 4. Its retrieval stops at position 2 with the
  \<^verbatim>\<open>NameError\<close> of C1.
\<close>

theorem slice_reaches_past_limit:
  "init ex_fs ''d'' ''val'' 64 Float32 (Some 4) ''assume'' () =
     (Inr (ex_handle ''val'' 64 (Some 4)), ex_fs)
   \<and> dunder_len (ex_handle ''val'' 64 (Some 4)) = Inr 4
   \<and> slice_indices (Some 4) (Some 5) None 4 = Inr (4, 4, 1)
   \<and> py_range 4 4 1 = []
   \<and> getitem_each (ex_handle ''val'' 64 (Some 4)) ex_fs [] = Inr []
   \<and> slice_positions (ex_handle ''val'' 64 (Some 4)) (Some 4) (Some 5) None = Inr [4]
   \<and> fs_imread ex_fs ''d/val/images/v_4.png'' = Some gray64
   \<and> dunder_getitem (ex_handle ''val'' 64 (Some 4)) ex_fs (Slice (Some 4) (Some 5) None) =
       Inl AssertionError
   \<and> slice_indices (Some 2) (Some 5) None 4 = Inr (2, 4, 1)
   \<and> py_range 2 4 1 = [2, 3]
   \<and> slice_positions (ex_handle ''val'' 64 (Some 4)) (Some 2) (Some 5) None = Inr [2, 3, 4]
   \<and> dunder_getitem (ex_handle ''val'' 64 (Some 4)) ex_fs (Slice (Some 2) (Some 5) None) =
       Inl (NameError ''image'')"
proof -
  have "init ex_fs ''d'' ''val'' 64 Float32 (Some 4) ''assume'' () =
     (Inr (ex_handle ''val'' 64 (Some 4)), ex_fs)"
    by (simp add: ex_init_assume)
  moreover have "dunder_len (ex_handle ''val'' 64 (Some 4)) = Inr 4" by code_simp
  moreover have "slice_indices (Some 4) (Some 5) None 4 = Inr (4, 4, 1)" by code_simp
  moreover have "py_range 4 4 1 = []" by code_simp
  moreover have "getitem_each (ex_handle ''val'' 64 (Some 4)) ex_fs [] = Inr []" by simp
  moreover have "slice_positions (ex_handle ''val'' 64 (Some 4)) (Some 4) (Some 5) None = Inr [4]"
    by code_simp
  moreover have "fs_imread ex_fs ''d/val/images/v_4.png'' = Some gray64"
    by (simp add: ex_fs_def)
  moreover have "dunder_getitem (ex_handle ''val'' 64 (Some 4)) ex_fs (Slice (Some 4) (Some 5) None) =
       Inl AssertionError"
    by code_simp
  moreover have "slice_indices (Some 2) (Some 5) None 4 = Inr (2, 4, 1)" by code_simp
  moreover have "py_range 2 4 1 = [2, 3]" by code_simp
  moreover have "slice_positions (ex_handle ''val'' 64 (Some 4)) (Some 2) (Some 5) None = Inr [2, 3, 4]"
    by code_simp
  moreover have "dunder_getitem (ex_handle ''val'' 64 (Some 4)) ex_fs (Slice (Some 2) (Some 5) None) =
       Inl (NameError ''image'')"
    by code_simp
  ultimately show ?thesis by blast
qed

subsection \<open>Exceptions of construction\<close>

lemma sort_keys_error: "sort_keys fs = Inl e \<Longrightarrow> e = AttributeError"
  by (induction fs) (auto simp: parse_num_def Let_def split: sum.splits option.splits)

lemma listdir_error: "listdir s path b = Inl e \<Longrightarrow> e = AttributeError"
  by (auto simp: listdir_def Let_def split: if_splits sum.splits dest: sort_keys_error)

lemma build_train_error: "build_train s dirs index = Inl e \<Longrightarrow> e = AttributeError"
  by (induction dirs arbitrary: index) (auto simp: Let_def split: sum.splits dest: listdir_error)

lemma build_index_error: "build_index s r d = Inl e \<Longrightarrow> e = AttributeError"
  by (auto simp: build_index_def Let_def split: if_splits sum.splits
           dest: listdir_error build_train_error)

lemma build_each_error: "build_each s r ds = Inl e \<Longrightarrow> e = AttributeError"
  by (induction ds) (auto split: sum.splits dest: build_index_error)

lemma build_indices_error: "build_indices s r = Inl e \<Longrightarrow> e = AttributeError"
  unfolding build_indices_def by (rule build_each_error)

lemma filter_index_error:
  "filter_index purge s ps acc = (Inl e, s') \<Longrightarrow> \<exists>p. e = ImreadError p \<or> e = RemoveError p"
  by (induction ps arbitrary: s acc)
     (auto simp: os_remove_def split: option.splits if_splits sum.splits)

lemma filter_each_error:
  "filter_each purge s idx = (Inl e, s') \<Longrightarrow> \<exists>p. e = ImreadError p \<or> e = RemoveError p"
proof (induction idx arbitrary: s)
  case Nil
  then show ?case by simp
next
  case (Cons x idx)
  obtain d index where x: "x = (d, index)" by (cases x)
  show ?case
  proof (cases "filter_index purge s index []")
    case (Pair res s1)
    show ?thesis
    proof (cases res)
      case (Inl e1)
      with Pair Cons.prems x have "filter_index purge s index [] = (Inl e, s')" by simp
      then show ?thesis by (rule filter_index_error)
    next
      case (Inr kept)
      with Pair Cons.prems x have "filter_each purge s1 idx = (Inl e, s')"
        by (auto split: prod.splits sum.splits)
      then show ?thesis by (rule Cons.IH)
    qed
  qed
qed

text \<open>
  C9. Construction ends in an exception, and returns no handle, whenever the root is
  not a directory, the split is none of the three, the size is below 64 or the cleaning
  mode is none of the three. When all four are valid, construction raises none of the
  four configuration errors: what may still fail is the listing (a file name without a
  trailing number) or the cleaning pass (a file that cannot be read or deleted).
\<close>

theorem init_configuration_errors:
  "((\<not> fs_isdir s r \<or> d \<notin> set [DATASET_TRAIN, DATASET_VAL, DATASET_TEST]
       \<or> sz < IMAGE_SIZE_ACTUAL \<or> mode \<notin> set [CLEAN_ASSUME, CLEAN_SKIP, CLEAN_PURGE])
      \<longrightarrow> (\<exists>e. fst (init s r d sz dt lim mode t) = Inl e))
   \<and> ((fs_isdir s r \<and> d \<in> set [DATASET_TRAIN, DATASET_VAL, DATASET_TEST]
       \<and> IMAGE_SIZE_ACTUAL \<le> sz \<and> mode \<in> set [CLEAN_ASSUME, CLEAN_SKIP, CLEAN_PURGE])
      \<longrightarrow> (\<forall>e \<in> set (config_errors r). fst (init s r d sz dt lim mode t) \<noteq> Inl e))"
proof (intro conjI impI)
  assume bad: "\<not> fs_isdir s r \<or> d \<notin> set [DATASET_TRAIN, DATASET_VAL, DATASET_TEST]
       \<or> sz < IMAGE_SIZE_ACTUAL \<or> mode \<notin> set [CLEAN_ASSUME, CLEAN_SKIP, CLEAN_PURGE]"
  show "\<exists>e. fst (init s r d sz dt lim mode t) = Inl e"
  proof (cases "fst (init s r d sz dt lim mode t)")
    case (Inl e)
    then show ?thesis by blast
  next
    case (Inr self)
    then have i: "init s r d sz dt lim mode t = (Inr self, snd (init s r d sz dt lim mode t))"
      by (metis prod.collapse)
    then have False using bad
      by (auto simp: init_def set_root_def set_dataset_def set_image_size_def clean_def
               split: sum.splits prod.splits if_splits)
    then show ?thesis ..
  qed
next
  assume good: "fs_isdir s r \<and> d \<in> set [DATASET_TRAIN, DATASET_VAL, DATASET_TEST]
       \<and> IMAGE_SIZE_ACTUAL \<le> sz \<and> mode \<in> set [CLEAN_ASSUME, CLEAN_SKIP, CLEAN_PURGE]"
  show "\<forall>e \<in> set (config_errors r). fst (init s r d sz dt lim mode t) \<noteq> Inl e"
  proof (cases "build_indices s r")
    case (Inl e)
    with good build_indices_error [OF Inl] show ?thesis
      by (auto simp: init_def set_root_def set_dataset_def set_image_size_def config_errors_def)
  next
    case (Inr idx)
    have c: "fst (clean mode s idx) = Inl e \<Longrightarrow> \<exists>p. e = ImreadError p \<or> e = RemoveError p" for e
      using good filter_each_error [of _ s idx e "snd (clean mode s idx)"]
      by (auto simp: clean_def filter_non_rgb_def CLEAN_ASSUME_def CLEAN_SKIP_def CLEAN_PURGE_def
               split: if_splits) (metis prod.collapse)+
    have "fst (init s r d sz dt lim mode t) = Inl e \<Longrightarrow> fst (clean mode s idx) = Inl e" for e
      using good Inr
      by (auto simp: init_def set_root_def set_dataset_def set_image_size_def
               split: sum.splits prod.splits)
    with c show ?thesis by (fastforce simp: config_errors_def)
  qed
qed

theorem init_configuration_errors_witness:
  "fst (init ex_fs ''nowhere'' ''val'' 64 Float32 None ''assume'' ()) =
     Inl (ValueError (''not a directory: '' @ [quote] @ ''nowhere'' @ [quote]))
   \<and> fst (init ex_fs ''d'' ''dev'' 64 Float32 None ''assume'' ()) =
     Inl (ValueError ''dataset must be either of train, val, test'')
   \<and> fst (init ex_fs ''d'' ''val'' 63 Float32 None ''assume'' ()) = Inl AssertionError
   \<and> fst (init ex_fs ''d'' ''val'' 64 Float32 None ''scrub'' ()) =
     Inl (ValueError ''invalid cleaning procedure'')
   \<and> (\<exists>e. fst (init ex_fs ''d'' ''val'' 64 Float32 None ''scrub'' ()) = Inl e)
   \<and> fs_isdir ex_fs ''d''
   \<and> fst (init ex_fs ''d'' ''val'' 64 Float32 None ''assume'' ()) = Inr (ex_handle ''val'' 64 None)
   \<and> fst (init ex_fs ''d'' ''val'' 64 Float32 None ''assume'' ()) \<noteq> Inl AssertionError"
proof -
  have 1: "fst (init ex_fs ''nowhere'' ''val'' 64 Float32 None ''assume'' ()) =
     Inl (ValueError (''not a directory: '' @ [quote] @ ''nowhere'' @ [quote]))"
    by (simp add: init_def set_root_def ex_fs_def)
  have 2: "fst (init ex_fs ''d'' ''dev'' 64 Float32 None ''assume'' ()) =
     Inl (ValueError ''dataset must be either of train, val, test'')"
    by (simp add: ex_init_assume)
  have 3: "fst (init ex_fs ''d'' ''val'' 63 Float32 None ''assume'' ()) = Inl AssertionError"
    by (simp add: init_def set_root_def set_dataset_def set_image_size_def ex_fs_def
          DATASET_TRAIN_def DATASET_VAL_def DATASET_TEST_def IMAGE_SIZE_ACTUAL_def)
  have 4: "fst (init ex_fs ''d'' ''val'' 64 Float32 None ''scrub'' ()) =
     Inl (ValueError ''invalid cleaning procedure'')"
    by (simp add: build_defs ex_defs)
  have 5: "fs_isdir ex_fs ''d''"
    by (simp add: ex_fs_def)
  have 6: "fst (init ex_fs ''d'' ''val'' 64 Float32 None ''assume'' ()) = Inr (ex_handle ''val'' 64 None)"
    by (simp add: ex_init_assume)
  have bad: "''scrub'' \<notin> set [CLEAN_ASSUME, CLEAN_SKIP, CLEAN_PURGE]"
    by (simp add: CLEAN_ASSUME_def CLEAN_SKIP_def CLEAN_PURGE_def)
  have good: "fs_isdir ex_fs ''d'' \<and> ''val'' \<in> set [DATASET_TRAIN, DATASET_VAL, DATASET_TEST]
       \<and> IMAGE_SIZE_ACTUAL \<le> 64 \<and> ''assume'' \<in> set [CLEAN_ASSUME, CLEAN_SKIP, CLEAN_PURGE]"
    by (simp add: 5 DATASET_VAL_def IMAGE_SIZE_ACTUAL_def CLEAN_ASSUME_def)
  have 7: "\<exists>e. fst (init ex_fs ''d'' ''val'' 64 Float32 None ''scrub'' ()) = Inl e"
    using init_configuration_errors [of ex_fs "''d''" "''val''" 64 "''scrub''" Float32 None "()"] bad
    by blast
  have "AssertionError \<in> set (config_errors ''d'')"
    by (simp add: config_errors_def)
  with init_configuration_errors [of ex_fs "''d''" "''val''" 64 "''assume''" Float32 None "()"] good
  have 8: "fst (init ex_fs ''d'' ''val'' 64 Float32 None ''assume'' ()) \<noteq> Inl AssertionError"
    by blast
  from 1 2 3 4 5 6 7 8 show ?thesis by blast
qed

subsection \<open>The cleaning pass without deletion\<close>

lemma filter_index_skip_fs: "snd (filter_index False s ps acc) = s"
  by (induction ps arbitrary: acc) (auto split: option.splits)

lemma filter_each_skip_fs: "snd (filter_each False s idx) = s"
proof (induction idx)
  case Nil
  then show ?case by simp
next
  case (Cons x idx)
  obtain d index where x: "x = (d, index)" by (cases x)
  from filter_index_skip_fs [of s index "[]"] obtain res where
    r: "filter_index False s index [] = (res, s)" by (metis prod.collapse)
  from Cons.IH obtain res' where r': "filter_each False s idx = (res', s)" by (metis prod.collapse)
  show ?case by (simp add: x r r' split: sum.split)
qed

lemma filter_index_skip:
  assumes "\<forall>p \<in> set ps. fs_imread s p \<noteq> None"
  shows "filter_index False s ps acc = (Inr (acc @ filter (reads_rgb s) ps), s)"
  using assms
  by (induction ps arbitrary: acc) (auto simp: reads_rgb_def)

lemma filter_each_skip:
  assumes "\<forall>p \<in> set (all_paths idx). fs_imread s p \<noteq> None"
  shows "filter_each False s idx =
           (Inr (map (\<lambda>(d, index). (d, filter (reads_rgb s) index)) idx), s)"
  using assms
  by (induction idx) (auto simp: all_paths_def filter_index_skip)

lemma is_rgb_last: "is_rgb img = (length (shape img) = 3 \<and> last (shape img) = 3)"
  by (cases "shape img" rule: rev_cases) (auto simp: is_rgb_def nth_append)

lemma ex_build_indices: "build_indices ex_fs ''d'' = Inr ex_indices"
  by (simp add: build_defs ex_defs)

lemma ex_all_paths:
  "all_paths ex_indices =
     [''d/train/a/images/a_1.png'', ''d/train/a/images/a_2.png'', ''d/train/a/images/a_10.png'',
      ''d/train/b/images/b_0.png'',
      ''d/val/images/v_0.png'', ''d/val/images/v_1.png'', ''d/val/images/v_2.png'',
      ''d/val/images/v_3.png'', ''d/val/images/v_4.png'',
      ''d/test/images/t_0.png'']"
  by (simp add: all_paths_def ex_indices_def)

lemma ex_reads_rgb:
  "reads_rgb ex_fs p =
     (p \<in> set ex_files \<and> p \<noteq> ''d/train/a/images/a_2.png'' \<and> p \<noteq> ''d/val/images/v_4.png'')"
  by (auto simp: reads_rgb_def ex_fs_def is_rgb_def rgb64_def gray64_def)

lemma ex_kept:
  "map (\<lambda>(k, index). (k, filter (reads_rgb ex_fs) index)) ex_indices =
     [(''train'', [''d/train/a/images/a_1.png'', ''d/train/a/images/a_10.png'',
                   ''d/train/b/images/b_0.png'']),
      (''val'', [''d/val/images/v_0.png'', ''d/val/images/v_1.png'', ''d/val/images/v_2.png'',
                 ''d/val/images/v_3.png'']),
      (''test'', [''d/test/images/t_0.png''])]"
  by (simp add: ex_reads_rgb ex_indices_def ex_files_def)

text \<open>
  C6. Construction in the mode \<^verbatim>\<open>skip\<close> never changes the file system. When every
  indexed file can be read, it returns the handle whose index of each of the three
  splits, whichever split is active, is the index as built with exactly the entries
  kept whose image satisfies \<^verbatim>\<open>_is_rgb\<close>, in their order. \<^verbatim>\<open>_is_rgb\<close> holds of an array
  with three dimensions whose last has size 3.
\<close>

theorem skip_keeps_rgb_entries:
  "snd (init s r d sz dt lim CLEAN_SKIP t) = s
   \<and> ((fs_isdir s r \<and> d \<in> set [DATASET_TRAIN, DATASET_VAL, DATASET_TEST] \<and> IMAGE_SIZE_ACTUAL \<le> sz
        \<and> build_indices s r = Inr idx \<and> list_all (\<lambda>p. fs_imread s p \<noteq> None) (all_paths idx))
       \<longrightarrow> map fst idx = [DATASET_TRAIN, DATASET_VAL, DATASET_TEST]
           \<and> init s r d sz dt lim CLEAN_SKIP t =
               (Inr \<lparr>root = r, dataset = d, image_size = sz, image_dtype = dt, limit = lim,
                     indices = map (\<lambda>(k, index). (k, filter (reads_rgb s) index)) idx\<rparr>, s))
   \<and> is_rgb img = (length (shape img) = 3 \<and> last (shape img) = 3)"
proof (intro conjI impI)
  have c: "snd (clean CLEAN_SKIP s i) = s" for i
    by (simp add: clean_def filter_non_rgb_def filter_each_skip_fs)
  then have c': "s' = s" if "clean CLEAN_SKIP s i = (res, s')" for i res s'
    using that by (metis snd_conv)
  show "snd (init s r d sz dt lim CLEAN_SKIP t) = s"
    by (auto simp: init_def split: sum.splits prod.splits dest: c')
next
  assume a: "fs_isdir s r \<and> d \<in> set [DATASET_TRAIN, DATASET_VAL, DATASET_TEST] \<and> IMAGE_SIZE_ACTUAL \<le> sz
        \<and> build_indices s r = Inr idx \<and> list_all (\<lambda>p. fs_imread s p \<noteq> None) (all_paths idx)"
  then show "map fst idx = [DATASET_TRAIN, DATASET_VAL, DATASET_TEST]"
    by (intro build_indices_keys [of s r]) simp
  from a have "\<forall>p \<in> set (all_paths idx). fs_imread s p \<noteq> None"
    by (simp add: list_all_iff)
  then have "clean CLEAN_SKIP s idx =
           (Inr (map (\<lambda>(d, index). (d, filter (reads_rgb s) index)) idx), s)"
    by (simp add: clean_def filter_non_rgb_def filter_each_skip)
  with a show "init s r d sz dt lim CLEAN_SKIP t =
               (Inr \<lparr>root = r, dataset = d, image_size = sz, image_dtype = dt, limit = lim,
                     indices = map (\<lambda>(k, index). (k, filter (reads_rgb s) index)) idx\<rparr>, s)"
    by (simp add: init_def set_root_def set_dataset_def set_image_size_def)
next
  show "is_rgb img = (length (shape img) = 3 \<and> last (shape img) = 3)"
    by (rule is_rgb_last)
qed

theorem skip_keeps_rgb_entries_witness:
  "fs_isdir ex_fs ''d''
   \<and> build_indices ex_fs ''d'' = Inr ex_indices
   \<and> list_all (\<lambda>p. fs_imread ex_fs p \<noteq> None) (all_paths ex_indices)
   \<and> fs_imread ex_fs ''d/train/a/images/a_2.png'' = Some gray64
   \<and> init ex_fs ''d'' ''test'' 64 Float32 None CLEAN_SKIP () =
       (Inr \<lparr>root = ''d'', dataset = ''test'', image_size = 64, image_dtype = Float32, limit = None,
             indices =
               [(''train'', [''d/train/a/images/a_1.png'', ''d/train/a/images/a_10.png'',
                             ''d/train/b/images/b_0.png'']),
                (''val'', [''d/val/images/v_0.png'', ''d/val/images/v_1.png'',
                           ''d/val/images/v_2.png'', ''d/val/images/v_3.png'']),
                (''test'', [''d/test/images/t_0.png''])]\<rparr>, ex_fs)"
proof -
  have 1: "fs_isdir ex_fs ''d''" by (simp add: ex_fs_def)
  have 2: "''test'' \<in> set [DATASET_TRAIN, DATASET_VAL, DATASET_TEST]" by (simp add: DATASET_TEST_def)
  have 3: "IMAGE_SIZE_ACTUAL \<le> 64" by (simp add: IMAGE_SIZE_ACTUAL_def)
  have 4: "list_all (\<lambda>p. fs_imread ex_fs p \<noteq> None) (all_paths ex_indices)"
    by (simp add: ex_all_paths) (simp add: ex_fs_def ex_files_def)
  have 5: "fs_imread ex_fs ''d/train/a/images/a_2.png'' = Some gray64" by (simp add: ex_fs_def)
  from skip_keeps_rgb_entries [of ex_fs "''d''" "''test''" 64 Float32 None "()" ex_indices]
    1 2 3 4 5 ex_build_indices
  show ?thesis by (simp add: ex_kept)
qed

subsection \<open>The cleaning pass with deletion\<close>

lemma os_remove_file:
  assumes "fs_imread s p \<noteq> None" "\<not> fs_locked s p"
  shows "os_remove s p = Inr (without_files s [p])"
proof -
  have g: "removeAll p xs = filter (\<lambda>q. q \<notin> set [p]) xs" for xs
    by (induction xs) auto
  have r: "(fs_imread s)(p := None) = (\<lambda>q. if q \<in> set [p] then None else fs_imread s q)"
    by auto
  from assms show ?thesis
    unfolding os_remove_def without_files_def g r by simp
qed

lemma without_files_nil: "without_files s [] = s"
  by (simp add: without_files_def)

lemma without_files_append: "without_files (without_files s a) b = without_files s (a @ b)"
  by (auto simp: without_files_def fun_eq_iff intro!: filter_cong)

lemma imread_without_files:
  "fs_imread (without_files s gone) p = (if p \<in> set gone then None else fs_imread s p)"
  by (simp add: without_files_def)

lemma locked_without_files: "fs_locked (without_files s gone) = fs_locked s"
  by (simp add: without_files_def)

lemma reads_rgb_without_files:
  "p \<notin> set gone \<Longrightarrow> reads_rgb (without_files s gone) p = reads_rgb s p"
  by (simp add: reads_rgb_def imread_without_files)

lemma filter_index_purge:
  assumes "\<forall>p \<in> set ps. fs_imread s p \<noteq> None"
    and "distinct ps"
    and "\<forall>p \<in> set ps. \<not> reads_rgb s p \<longrightarrow> \<not> fs_locked s p"
  shows "filter_index True s ps acc =
           (Inr (acc @ filter (reads_rgb s) ps),
            without_files s (filter (\<lambda>p. \<not> reads_rgb s p) ps))"
  using assms
proof (induction ps arbitrary: s acc)
  case Nil
  then show ?case by (simp add: without_files_nil)
next
  case (Cons p ps)
  from Cons.prems(1) obtain img where img: "fs_imread s p = Some img" by auto
  show ?case
  proof (cases "is_rgb img")
    case True
    then have r: "reads_rgb s p" by (simp add: reads_rgb_def img)
    from Cons.prems have "filter_index True s ps (acc @ [p]) =
           (Inr ((acc @ [p]) @ filter (reads_rgb s) ps),
            without_files s (filter (\<lambda>p. \<not> reads_rgb s p) ps))"
      by (intro Cons.IH) auto
    with True r img show ?thesis by simp
  next
    case False
    then have r: "\<not> reads_rgb s p" by (simp add: reads_rgb_def img)
    with Cons.prems(3) have "\<not> fs_locked s p" by simp
    with img have rm: "os_remove s p = Inr (without_files s [p])"
      by (simp add: os_remove_file)
    let ?s1 = "without_files s [p]"
    from Cons.prems(2) have np: "p \<notin> set ps" and d: "distinct ps" by auto
    have same: "reads_rgb ?s1 q = reads_rgb s q" if "q \<in> set ps" for q
      using that np by (intro reads_rgb_without_files) auto
    have "filter_index True ?s1 ps acc =
           (Inr (acc @ filter (reads_rgb ?s1) ps),
            without_files ?s1 (filter (\<lambda>p. \<not> reads_rgb ?s1 p) ps))"
    proof (intro Cons.IH d)
      show "\<forall>q \<in> set ps. fs_imread ?s1 q \<noteq> None"
        using Cons.prems(1) np by (auto simp: imread_without_files)
      show "\<forall>q \<in> set ps. \<not> reads_rgb ?s1 q \<longrightarrow> \<not> fs_locked ?s1 q"
        using Cons.prems(3) same by (auto simp: locked_without_files)
    qed
    moreover have "filter (reads_rgb ?s1) ps = filter (reads_rgb s) ps"
      using same by (intro filter_cong) auto
    moreover have "filter (\<lambda>p. \<not> reads_rgb ?s1 p) ps = filter (\<lambda>p. \<not> reads_rgb s p) ps"
      using same by (intro filter_cong) auto
    ultimately have "filter_index True ?s1 ps acc =
           (Inr (acc @ filter (reads_rgb s) ps),
            without_files s (p # filter (\<lambda>p. \<not> reads_rgb s p) ps))"
      by (simp add: without_files_append)
    with False r img rm show ?thesis by simp
  qed
qed

lemma filter_each_purge:
  assumes "\<forall>p \<in> set (all_paths idx). fs_imread s p \<noteq> None"
    and "distinct (all_paths idx)"
    and "\<forall>p \<in> set (all_paths idx). \<not> reads_rgb s p \<longrightarrow> \<not> fs_locked s p"
  shows "filter_each True s idx =
           (Inr (map (\<lambda>(d, index). (d, filter (reads_rgb s) index)) idx),
            without_files s (filter (\<lambda>p. \<not> reads_rgb s p) (all_paths idx)))"
  using assms
proof (induction idx arbitrary: s)
  case Nil
  then show ?case by (simp add: all_paths_def without_files_nil)
next
  case (Cons x idx)
  obtain d index where x: "x = (d, index)" by (cases x)
  let ?gone = "filter (\<lambda>p. \<not> reads_rgb s p) index"
  let ?s1 = "without_files s ?gone"
  from Cons.prems x have here: "\<forall>p \<in> set index. fs_imread s p \<noteq> None" "distinct index"
    "\<forall>p \<in> set index. \<not> reads_rgb s p \<longrightarrow> \<not> fs_locked s p"
    by (auto simp: all_paths_def)
  have fi: "filter_index True s index [] = (Inr (filter (reads_rgb s) index), ?s1)"
    using filter_index_purge [OF here, of "[]"] by simp
  from Cons.prems(2) x have apart: "set index \<inter> set (all_paths idx) = {}"
    and d: "distinct (all_paths idx)"
    by (auto simp: all_paths_def)
  have same: "reads_rgb ?s1 q = reads_rgb s q" if "q \<in> set (all_paths idx)" for q
    using that apart by (intro reads_rgb_without_files) auto
  have "filter_each True ?s1 idx =
           (Inr (map (\<lambda>(d, index). (d, filter (reads_rgb ?s1) index)) idx),
            without_files ?s1 (filter (\<lambda>p. \<not> reads_rgb ?s1 p) (all_paths idx)))"
  proof (intro Cons.IH d)
    show "\<forall>q \<in> set (all_paths idx). fs_imread ?s1 q \<noteq> None"
      using Cons.prems(1) apart x by (auto simp: imread_without_files all_paths_def)
    show "\<forall>q \<in> set (all_paths idx). \<not> reads_rgb ?s1 q \<longrightarrow> \<not> fs_locked ?s1 q"
      using Cons.prems(3) same x by (auto simp: locked_without_files all_paths_def)
  qed
  moreover have "map (\<lambda>(d, index). (d, filter (reads_rgb ?s1) index)) idx =
                 map (\<lambda>(d, index). (d, filter (reads_rgb s) index)) idx"
  proof (intro map_cong refl)
    fix e assume e: "e \<in> set idx"
    obtain k index' where ke: "e = (k, index')" by (cases e)
    from e ke have "set index' \<subseteq> set (all_paths idx)" by (force simp: all_paths_def)
    with same have "filter (reads_rgb ?s1) index' = filter (reads_rgb s) index'"
      by (intro filter_cong) auto
    with ke show "(case e of (d, index) \<Rightarrow> (d, filter (reads_rgb ?s1) index)) =
                  (case e of (d, index) \<Rightarrow> (d, filter (reads_rgb s) index))"
      by simp
  qed
  moreover have "filter (\<lambda>p. \<not> reads_rgb ?s1 p) (all_paths idx) =
                 filter (\<lambda>p. \<not> reads_rgb s p) (all_paths idx)"
    using same by (intro filter_cong) auto
  ultimately have "filter_each True ?s1 idx =
           (Inr (map (\<lambda>(d, index). (d, filter (reads_rgb s) index)) idx),
            without_files s (?gone @ filter (\<lambda>p. \<not> reads_rgb s p) (all_paths idx)))"
    by (simp add: without_files_append)
  with fi x show ?case by (simp add: all_paths_def)
qed

text \<open>
  C7. Construction in the mode \<^verbatim>\<open>purge\<close>, when every indexed file can be read, no path
  is indexed twice and every rejected file can be deleted, returns the handle that the
  mode \<^verbatim>\<open>skip\<close> returns, and leaves a file system in which exactly the rejected files
  are gone: reading a rejected path fails, every other path reads as before, and the
  directory listings have lost the rejected paths and nothing else.
\<close>

theorem purge_deletes_rejected_files:
  assumes "fs_isdir s r"
    and "d \<in> set [DATASET_TRAIN, DATASET_VAL, DATASET_TEST]"
    and "IMAGE_SIZE_ACTUAL \<le> sz"
    and "build_indices s r = Inr idx"
    and "list_all (\<lambda>p. fs_imread s p \<noteq> None) (all_paths idx)"
    and "distinct (all_paths idx)"
    and "list_all (\<lambda>p. reads_rgb s p \<or> \<not> fs_locked s p) (all_paths idx)"
  shows "fst (init s r d sz dt lim CLEAN_PURGE t) = fst (init s r d sz dt lim CLEAN_SKIP t)
         \<and> fst (init s r d sz dt lim CLEAN_PURGE t) =
             Inr \<lparr>root = r, dataset = d, image_size = sz, image_dtype = dt, limit = lim,
                   indices = map (\<lambda>(k, index). (k, filter (reads_rgb s) index)) idx\<rparr>
         \<and> (\<forall>p. fs_imread (snd (init s r d sz dt lim CLEAN_PURGE t)) p =
                  (if p \<in> set (all_paths idx) \<and> \<not> reads_rgb s p then None else fs_imread s p))
         \<and> (\<forall>pat. fs_glob (snd (init s r d sz dt lim CLEAN_PURGE t)) pat =
                  filter (\<lambda>p. \<not> (p \<in> set (all_paths idx) \<and> \<not> reads_rgb s p)) (fs_glob s pat))"
proof -
  let ?kept = "map (\<lambda>(k, index). (k, filter (reads_rgb s) index)) idx"
  let ?gone = "filter (\<lambda>p. \<not> reads_rgb s p) (all_paths idx)"
  let ?self = "\<lparr>root = r, dataset = d, image_size = sz, image_dtype = dt, limit = lim,
                indices = ?kept\<rparr>"
  from assms(5) have readable: "\<forall>p \<in> set (all_paths idx). fs_imread s p \<noteq> None"
    by (simp add: list_all_iff)
  from assms(7) have free: "\<forall>p \<in> set (all_paths idx). \<not> reads_rgb s p \<longrightarrow> \<not> fs_locked s p"
    by (auto simp: list_all_iff)
  have "clean CLEAN_PURGE s idx = (Inr ?kept, without_files s ?gone)"
    using filter_each_purge [OF readable assms(6) free]
    by (simp add: clean_def filter_non_rgb_def CLEAN_PURGE_def CLEAN_SKIP_def)
  with assms(1-4) have p: "init s r d sz dt lim CLEAN_PURGE t = (Inr ?self, without_files s ?gone)"
    by (simp add: init_def set_root_def set_dataset_def set_image_size_def)
  have "clean CLEAN_SKIP s idx = (Inr ?kept, s)"
    using filter_each_skip [OF readable] by (simp add: clean_def filter_non_rgb_def)
  with assms(1-4) have k: "init s r d sz dt lim CLEAN_SKIP t = (Inr ?self, s)"
    by (simp add: init_def set_root_def set_dataset_def set_image_size_def)
  have g: "fs_glob (without_files s ?gone) pat =
             filter (\<lambda>p. \<not> (p \<in> set (all_paths idx) \<and> \<not> reads_rgb s p)) (fs_glob s pat)" for pat
    by (auto simp: without_files_def intro!: filter_cong)
  show ?thesis
    by (simp add: p k imread_without_files g)
qed

theorem purge_deletes_rejected_files_witness:
  "build_indices ex_fs ''d'' = Inr ex_indices
   \<and> distinct (all_paths ex_indices)
   \<and> fst (init ex_fs ''d'' ''test'' 64 Float32 None CLEAN_PURGE ()) =
       fst (init ex_fs ''d'' ''test'' 64 Float32 None CLEAN_SKIP ())
   \<and> fst (init ex_fs ''d'' ''test'' 64 Float32 None CLEAN_PURGE ()) =
       Inr \<lparr>root = ''d'', dataset = ''test'', image_size = 64, image_dtype = Float32, limit = None,
            indices =
              [(''train'', [''d/train/a/images/a_1.png'', ''d/train/a/images/a_10.png'',
                            ''d/train/b/images/b_0.png'']),
               (''val'', [''d/val/images/v_0.png'', ''d/val/images/v_1.png'',
                          ''d/val/images/v_2.png'', ''d/val/images/v_3.png'']),
               (''test'', [''d/test/images/t_0.png''])]\<rparr>
   \<and> fs_imread ex_fs ''d/train/a/images/a_2.png'' = Some gray64
   \<and> fs_imread (snd (init ex_fs ''d'' ''test'' 64 Float32 None CLEAN_PURGE ()))
        ''d/train/a/images/a_2.png'' = None
   \<and> fs_imread (snd (init ex_fs ''d'' ''test'' 64 Float32 None CLEAN_PURGE ()))
        ''d/val/images/v_4.png'' = None
   \<and> fs_imread (snd (init ex_fs ''d'' ''test'' 64 Float32 None CLEAN_PURGE ()))
        ''d/train/a/images/a_1.png'' = Some rgb64
   \<and> fs_glob (snd (init ex_fs ''d'' ''test'' 64 Float32 None CLEAN_PURGE ())) ''d/train/a/images/*'' =
        [''d/train/a/images/a_10.png'', ''d/train/a/images/a_1.png'']"
proof -
  have 1: "fs_isdir ex_fs ''d''" by (simp add: ex_fs_def)
  have 2: "''test'' \<in> set [DATASET_TRAIN, DATASET_VAL, DATASET_TEST]" by (simp add: DATASET_TEST_def)
  have 3: "IMAGE_SIZE_ACTUAL \<le> 64" by (simp add: IMAGE_SIZE_ACTUAL_def)
  have 4: "list_all (\<lambda>p. fs_imread ex_fs p \<noteq> None) (all_paths ex_indices)"
    by (simp add: ex_all_paths) (simp add: ex_fs_def ex_files_def)
  have 5: "distinct (all_paths ex_indices)"
    by (simp add: ex_all_paths)
  have 6: "list_all (\<lambda>p. reads_rgb ex_fs p \<or> \<not> fs_locked ex_fs p) (all_paths ex_indices)"
    by (simp add: list_all_iff ex_fs_def)
  have 7: "fs_imread ex_fs ''d/train/a/images/a_2.png'' = Some gray64"
    and 8: "fs_imread ex_fs ''d/train/a/images/a_1.png'' = Some rgb64"
    and 9: "fs_glob ex_fs ''d/train/a/images/*'' =
             [''d/train/a/images/a_2.png'', ''d/train/a/images/a_10.png'', ''d/train/a/images/a_1.png'']"
    by (simp_all add: ex_fs_def ex_files_def)
  note t = purge_deletes_rejected_files [OF 1 2 3 ex_build_indices 4 5 6, of Float32 None "()"]
  from t have a: "fst (init ex_fs ''d'' ''test'' 64 Float32 None CLEAN_PURGE ()) =
       fst (init ex_fs ''d'' ''test'' 64 Float32 None CLEAN_SKIP ())" by blast
  from t have b: "fst (init ex_fs ''d'' ''test'' 64 Float32 None CLEAN_PURGE ()) =
       Inr \<lparr>root = ''d'', dataset = ''test'', image_size = 64, image_dtype = Float32, limit = None,
            indices = map (\<lambda>(k, index). (k, filter (reads_rgb ex_fs) index)) ex_indices\<rparr>" by blast
  from t have c: "fs_imread (snd (init ex_fs ''d'' ''test'' 64 Float32 None CLEAN_PURGE ())) p =
                  (if p \<in> set (all_paths ex_indices) \<and> \<not> reads_rgb ex_fs p then None
                   else fs_imread ex_fs p)" for p by blast
  from t have d: "fs_glob (snd (init ex_fs ''d'' ''test'' 64 Float32 None CLEAN_PURGE ())) pat =
                  filter (\<lambda>p. \<not> (p \<in> set (all_paths ex_indices) \<and> \<not> reads_rgb ex_fs p))
                    (fs_glob ex_fs pat)" for pat by blast
  have e: "fs_glob (snd (init ex_fs ''d'' ''test'' 64 Float32 None CLEAN_PURGE ())) ''d/train/a/images/*'' =
        [''d/train/a/images/a_10.png'', ''d/train/a/images/a_1.png'']"
    unfolding d 9 by (simp add: ex_reads_rgb ex_all_paths ex_files_def)
  have f: "fs_imread (snd (init ex_fs ''d'' ''test'' 64 Float32 None CLEAN_PURGE ()))
        ''d/train/a/images/a_2.png'' = None"
    "fs_imread (snd (init ex_fs ''d'' ''test'' 64 Float32 None CLEAN_PURGE ()))
        ''d/val/images/v_4.png'' = None"
    "fs_imread (snd (init ex_fs ''d'' ''test'' 64 Float32 None CLEAN_PURGE ()))
        ''d/train/a/images/a_1.png'' = Some rgb64"
    unfolding c by (simp_all add: ex_reads_rgb ex_all_paths ex_files_def 8)
  from a b 5 7 e f ex_build_indices show ?thesis
    by (simp add: ex_kept)
qed

subsection \<open>The numeric sort of a listing\<close>














end
